theory Spec2Isabelle
  imports Complex_Main "HOL-Library.Sublist"
begin

section \<open>The relocation recommendation endpoint (api/recommend.js)\<close>

text \<open>
  A shallow embedding of the serverless handler of \<^verbatim>\<open>api/recommend.js\<close>: the credential
  resolver \<^verbatim>\<open>getApiKey\<close>, the fetch resolver \<^verbatim>\<open>getFetch\<close>, the body reader
  \<^verbatim>\<open>readJsonBody\<close> and the exported handler. Everything the handler takes from its
  runtime (environment variables, files, \<^verbatim>\<open>JSON.parse\<close>, \<^verbatim>\<open>fetch\<close>) is a field of
  the record \<open>world\<close>; the effects of one invocation are returned as a list of events
  together with the way the invocation ended.
\<close>

subsection \<open>JavaScript values\<close>

text \<open>
  The values that reach the handler come out of \<^verbatim>\<open>JSON.parse\<close> (or out of the transport's
  body parser), so they are JSON values, plus \<^verbatim>\<open>undefined\<close> for an absent property.
  A \<open>char\<close> stands for one code unit of a JavaScript string in the range U+0000..U+00FF;
  a number is kept as a rational, which is enough to tell zero from nonzero (the only
  thing the handler asks of a number). An object is an association list read with
  \<open>map_of\<close>.
\<close>

datatype jsval =
    JUndefined
  | JNull
  | JBool bool
  | JNum rat
  | JStr string
  | JArr "jsval list"
  | JObj "(string \<times> jsval) list"

text \<open>
  Exceptions: \<open>TypeError\<close> is what the engine raises for a property read on
  \<^verbatim>\<open>null\<close>/\<^verbatim>\<open>undefined\<close> or a call of a non-function; \<open>Error m\<close> is \<^verbatim>\<open>new Error(m)\<close>;
  \<open>External s\<close> is any error value raised by a capability outside the file (the network,
  the dynamic import), with \<open>s\<close> its rendering under \<^verbatim>\<open>String(err)\<close>.
\<close>

datatype js_error = TypeError | Error string | External string

text \<open>Truthiness, as used by \<^verbatim>\<open>||\<close>, \<^verbatim>\<open>&&\<close>, \<^verbatim>\<open>!\<close> and \<^verbatim>\<open>if\<close>.\<close>

fun truthy :: "jsval \<Rightarrow> bool" where
  "truthy JUndefined = False"
| "truthy JNull = False"
| "truthy (JBool b) = b"
| "truthy (JNum n) = (n \<noteq> 0)"
| "truthy (JStr s) = (s \<noteq> [])"
| "truthy (JArr xs) = True"
| "truthy (JObj kvs) = True"

text \<open>
  The property read \<^verbatim>\<open>v.k\<close>. It is only applied to the keys \<^verbatim>\<open>answers\<close>,
  \<^verbatim>\<open>destinations\<close>, \<^verbatim>\<open>relocationType\<close>, \<^verbatim>\<open>choices\<close>, \<^verbatim>\<open>message\<close> and \<^verbatim>\<open>content\<close>, none of
  which is a property of an array, a string, a number or a boolean: there the read gives
  \<^verbatim>\<open>undefined\<close>. On \<^verbatim>\<open>null\<close> and \<^verbatim>\<open>undefined\<close> it raises.
\<close>

fun get_prop :: "jsval \<Rightarrow> string \<Rightarrow> js_error + jsval" where
  "get_prop JUndefined k = Inl TypeError"
| "get_prop JNull k = Inl TypeError"
| "get_prop (JObj kvs) k = Inr (case map_of kvs k of None \<Rightarrow> JUndefined | Some v \<Rightarrow> v)"
| "get_prop v k = Inr JUndefined"

text \<open>The optional read \<^verbatim>\<open>v?.k\<close>: \<^verbatim>\<open>undefined\<close> where \<^verbatim>\<open>v.k\<close> would raise.\<close>

definition opt_prop :: "jsval \<Rightarrow> string \<Rightarrow> jsval" where
  "opt_prop v k = (case get_prop v k of Inl e \<Rightarrow> JUndefined | Inr x \<Rightarrow> x)"

text \<open>The optional element read \<^verbatim>\<open>v?.[0]\<close>; on a string it is the first character.\<close>

fun opt_index0 :: "jsval \<Rightarrow> jsval" where
  "opt_index0 (JArr xs) = (case xs of [] \<Rightarrow> JUndefined | x # rest \<Rightarrow> x)"
| "opt_index0 (JStr s) = (case s of [] \<Rightarrow> JUndefined | c # rest \<Rightarrow> JStr [c])"
| "opt_index0 (JObj kvs) = (case map_of kvs ''0'' of None \<Rightarrow> JUndefined | Some v \<Rightarrow> v)"
| "opt_index0 v = JUndefined"

text \<open>\<^verbatim>\<open>Object.keys(v).length\<close> for a truthy \<open>v\<close>.\<close>

fun object_keys_length :: "jsval \<Rightarrow> nat" where
  "object_keys_length (JObj kvs) = length (remdups (map fst kvs))"
| "object_keys_length (JArr xs) = length xs"
| "object_keys_length (JStr s) = length s"
| "object_keys_length v = 0"

subsection \<open>Strings\<close>

text \<open>\<^verbatim>\<open>s.includes(n)\<close> on strings: \<open>n\<close> occurs in \<open>s\<close> as a contiguous run.\<close>

fun str_includes :: "string \<Rightarrow> string \<Rightarrow> bool" where
  "str_includes [] n = (n = [])"
| "str_includes (c # cs) n = (prefix n (c # cs) \<or> str_includes cs n)"

text \<open>
  The method call \<^verbatim>\<open>v.includes(n)\<close> with a string argument: substring test on a
  string, element test on an array, and a \<^verbatim>\<open>TypeError\<close> on every other value (a number,
  a boolean or a JSON object has no callable \<^verbatim>\<open>includes\<close>).
\<close>

fun js_includes :: "jsval \<Rightarrow> string \<Rightarrow> js_error + bool" where
  "js_includes (JStr s) n = Inr (str_includes s n)"
| "js_includes (JArr xs) n = Inr (JStr n \<in> set xs)"
| "js_includes v n = Inl TypeError"

text \<open>\<^verbatim>\<open>s.indexOf(c)\<close> for a one-character needle: the first position, or -1.\<close>

definition index_of :: "'a \<Rightarrow> 'a list \<Rightarrow> int" where
  "index_of c s = (if c \<in> set s then int (length (takeWhile (\<lambda>x. x \<noteq> c) s)) else - 1)"

text \<open>\<^verbatim>\<open>s.slice(start)\<close> as the handler calls it, with \<open>start \<ge> 0\<close>.\<close>

definition slice_from :: "int \<Rightarrow> 'a list \<Rightarrow> 'a list" where
  "slice_from start s = drop (nat start) s"

text \<open>
  \<^verbatim>\<open>s.trim()\<close>: white space and line terminators are removed at both ends. In the range
  of code units modelled these are TAB, LF, VT, FF, CR, SPACE and NBSP.
\<close>

definition is_space :: "char \<Rightarrow> bool" where
  "is_space c = (c \<in> set [CHR 0x09, CHR 0x0A, CHR 0x0B, CHR 0x0C, CHR 0x0D, CHR 0x20, CHR 0xA0])"

definition js_trim :: "string \<Rightarrow> string" where
  "js_trim s = rev (dropWhile is_space (rev (dropWhile is_space s)))"

subsection \<open>The runtime\<close>

text \<open>
  An upstream HTTP response: its status, and what \<^verbatim>\<open>resp.text()\<close> and \<^verbatim>\<open>resp.json()\<close>
  settle to. \<^verbatim>\<open>resp.ok\<close> is, by the Fetch standard, true for the statuses 200 to 299.
\<close>

record upstream_response =
  resp_status :: nat
  resp_text :: "js_error + string"
  resp_json :: "js_error + jsval"

definition resp_ok :: "upstream_response \<Rightarrow> bool" where
  "resp_ok r = (200 \<le> resp_status r \<and> resp_status r \<le> 299)"

record fetch_request =
  fr_url :: string
  fr_method :: string
  fr_headers :: "(string \<times> string) list"
  fr_body :: string

type_synonym fetcher = "fetch_request \<Rightarrow> js_error + upstream_response"

text \<open>
  What one invocation finds around it. \<open>process_env\<close> is \<^verbatim>\<open>process.env\<close>;
  \<open>readFileSync\<close> is \<^verbatim>\<open>fs.readFileSync(path, 'utf8')\<close> with \<open>None\<close> for a raised
  error; \<open>JSON_parse\<close> is \<^verbatim>\<open>JSON.parse\<close> with \<open>None\<close> for a raised SyntaxError;
  \<open>globalThis_fetch\<close> is \<^verbatim>\<open>globalThis.fetch\<close> when it is a function;
  \<open>import_node_fetch\<close> is the outcome of \<^verbatim>\<open>import('node-fetch')\<close>.
\<close>

record world =
  process_env :: "string \<Rightarrow> string option"
  readFileSync :: "string \<Rightarrow> string option"
  JSON_parse :: "string \<Rightarrow> jsval option"
  JSON_stringify :: "jsval \<Rightarrow> string"
  String_of :: "jsval \<Rightarrow> string"
  TypeError_text :: string
  globalThis_fetch :: "fetcher option"
  import_node_fetch :: "js_error + fetcher"

text \<open>\<^verbatim>\<open>String(err)\<close>.\<close>

fun String_of_error :: "world \<Rightarrow> js_error \<Rightarrow> string" where
  "String_of_error w TypeError = TypeError_text w"
| "String_of_error w (Error m) = ''Error: '' @ m"
| "String_of_error w (External s) = s"

subsection \<open>Credential resolver\<close>

definition tryReadFileSync :: "world \<Rightarrow> string \<Rightarrow> string option" where
  "tryReadFileSync w path =
     (case readFileSync w path of
        None \<Rightarrow> None
      | Some content \<Rightarrow> (let s = js_trim content in if s \<noteq> [] then Some s else None))"

text \<open>\<^verbatim>\<open>process.env.X && process.env.X.trim()\<close> is truthy.\<close>

definition env_has_key :: "world \<Rightarrow> string \<Rightarrow> bool" where
  "env_has_key w name =
     (case process_env w name of None \<Rightarrow> False | Some v \<Rightarrow> v \<noteq> [] \<and> js_trim v \<noteq> [])"

definition env_trimmed :: "world \<Rightarrow> string \<Rightarrow> string" where
  "env_trimmed w name = (case process_env w name of None \<Rightarrow> [] | Some v \<Rightarrow> js_trim v)"

definition getApiKey :: "world \<Rightarrow> string option" where
  "getApiKey w =
     (if env_has_key w ''OPENAI_API_KEY'' then Some (env_trimmed w ''OPENAI_API_KEY'')
      else if env_has_key w ''OPEN_AI_KEY'' then Some (env_trimmed w ''OPEN_AI_KEY'')
      else
        (case (case process_env w ''OPEN_AI_KEY_FILE'' of
                 None \<Rightarrow> None
               | Some p \<Rightarrow> if p \<noteq> [] then tryReadFileSync w p else None) of
           Some fromFile \<Rightarrow> Some fromFile
         | None \<Rightarrow>
            (case tryReadFileSync w ''./OPEN_AI_KEY'' of
               Some fromLocal \<Rightarrow> Some fromLocal
             | None \<Rightarrow>
                (case tryReadFileSync w ''/run/secrets/OPEN_AI_KEY'' of
                   Some fromRunSecrets \<Rightarrow> Some fromRunSecrets
                 | None \<Rightarrow> None))))"

subsection \<open>Fetch resolver\<close>

definition getFetch :: "world \<Rightarrow> js_error + fetcher" where
  "getFetch w =
     (case globalThis_fetch w of
        Some f \<Rightarrow> Inr f
      | None \<Rightarrow>
         (case import_node_fetch w of
            Inr nodeFetch \<Rightarrow> Inr nodeFetch
          | Inl err \<Rightarrow>
              Inl (Error (''No fetch available and node-fetch failed to import: ''
                            @ String_of_error w err))))"

subsection \<open>Body reader\<close>

text \<open>
  The request: its method, the body the transport may have parsed already
  (\<^verbatim>\<open>req.body\<close>, \<open>JUndefined\<close> when there is none), and what the request stream emits.
\<close>

datatype stream_event = Data string | End | StreamError

record request =
  req_method :: string
  req_body :: jsval
  req_stream :: "stream_event list"

text \<open>
  The promise of \<^verbatim>\<open>readJsonBody\<close>: \<open>d\<close> accumulates the chunks; the first \<^verbatim>\<open>end\<close> or
  \<^verbatim>\<open>error\<close> settles it. A stream that emits neither leaves the promise pending
  (\<open>None\<close>).
\<close>

fun consume :: "world \<Rightarrow> string \<Rightarrow> stream_event list \<Rightarrow> jsval option" where
  "consume w d [] = None"
| "consume w d (Data c # es) = consume w (d @ c) es"
| "consume w d (End # es) =
     Some (case JSON_parse w (if d \<noteq> [] then d else ''{}'') of
             Some v \<Rightarrow> v
           | None \<Rightarrow> JObj [])"
| "consume w d (StreamError # es) = Some (JObj [])"

definition readJsonBody :: "world \<Rightarrow> request \<Rightarrow> jsval option" where
  "readJsonBody w req =
     (if truthy (req_body req) \<and> object_keys_length (req_body req) \<noteq> 0
      then Some (req_body req)
      else consume w [] (req_stream req))"

subsection \<open>The deterministic fallback\<close>

text \<open>
  Lines 69 to 74. \<open>dests\<close> is the array itself, a one-element array around any other
  truthy value, or the empty array; \<open>relocation\<close> is the field when truthy and the empty
  string otherwise. The country is a string, as in the source. The call
  \<^verbatim>\<open>relocation.includes('work')\<close> is only reached when neither destination test fires and
  \<open>relocation\<close> is truthy; it raises on a value that has no such method.
\<close>

definition normalize_dests :: "jsval \<Rightarrow> jsval list" where
  "normalize_dests d = (case d of JArr xs \<Rightarrow> xs | _ \<Rightarrow> if truthy d then [d] else [])"

definition fallback_pick :: "jsval \<Rightarrow> js_error + string" where
  "fallback_pick answers =
     (case get_prop answers ''destinations'' of
        Inl e \<Rightarrow> Inl e
      | Inr d \<Rightarrow>
         (let dests = normalize_dests d in
          case get_prop answers ''relocationType'' of
            Inl e \<Rightarrow> Inl e
          | Inr r \<Rightarrow>
             (let relocation = (if truthy r then r else JStr []) in
              if JStr ''panama'' \<in> set dests then Inr ''Panama''
              else if JStr ''belize'' \<in> set dests then Inr ''Belize''
              else if truthy relocation then
                (case js_includes relocation ''work'' of
                   Inl e \<Rightarrow> Inl e
                 | Inr b \<Rightarrow> Inr (if b then ''Panama'' else ''Costa Rica''))
              else Inr ''Costa Rica'')))"

text \<open>Lines 75 to 87: the object built around the picked country.\<close>

definition city :: "string \<Rightarrow> string \<Rightarrow> jsval" where
  "city name reason = JObj [(''name'', JStr name), (''reason'', JStr reason)]"

definition fallback :: "string \<Rightarrow> jsval" where
  "fallback pick =
     JObj [
       (''country'', JStr pick),
       (''score'', JNum 75),
       (''reasons'', JArr [
          JStr (''Based on your selections, '' @ pick @ '' aligns best with your priorities.''),
          JStr ''Good balance of lifestyle, services, and accessibility for your needs.'']),
       (''cities'', JArr [
          city (if pick = ''Costa Rica'' then ''San Jos'' @ [CHR 0xE9]
                else if pick = ''Panama'' then ''Panama City'' else ''Belize City'')
               ''Main hub with services'',
          city (if pick = ''Costa Rica'' then ''Guanacaste''
                else if pick = ''Panama'' then ''Boquete'' else ''San Pedro'')
               ''Popular expat/retirement spot'',
          city (if pick = ''Costa Rica'' then ''La Fortuna''
                else if pick = ''Panama'' then ''David'' else ''Caye Caulker'')
               ''Leisure and nature options''])]"

subsection \<open>Effects of an invocation\<close>

text \<open>
  The calls the handler makes and what it does to the response object, in order:
  \<open>BodyRead\<close> for \<^verbatim>\<open>readJsonBody(req)\<close>, \<open>KeyLookup\<close> for \<^verbatim>\<open>getApiKey()\<close>,
  \<open>FetchLookup\<close> for \<^verbatim>\<open>getFetch()\<close>, \<open>UpstreamCall\<close> for the call of the fetch function,
  \<open>HeaderSet\<close> for \<^verbatim>\<open>res.setHeader\<close> and \<open>Sent s b\<close> for \<^verbatim>\<open>res.status(s).json(b)\<close>.
  Console output is left out; the methods of the response object are taken not to raise.
  An invocation ends by returning, by raising to its caller (the promise of the async
  function rejects), or not at all.
\<close>

datatype event =
    BodyRead
  | KeyLookup
  | FetchLookup
  | UpstreamCall fetch_request
  | HeaderSet string string
  | Sent nat jsval

datatype completion = Returned | Raised js_error | Pending

type_synonym run = "event list \<times> completion"

definition after :: "event list \<Rightarrow> run \<Rightarrow> run" where
  "after evs r = (evs @ fst r, snd r)"

fun responses :: "event list \<Rightarrow> (nat \<times> jsval) list" where
  "responses [] = []"
| "responses (Sent s b # es) = (s, b) # responses es"
| "responses (e # es) = responses es"

fun upstream_calls :: "event list \<Rightarrow> fetch_request list" where
  "upstream_calls [] = []"
| "upstream_calls (UpstreamCall rq # es) = rq # upstream_calls es"
| "upstream_calls (e # es) = upstream_calls es"

definition fallback_path :: "jsval \<Rightarrow> run" where
  "fallback_path answers =
     (case fallback_pick answers of
        Inl e \<Rightarrow> ([], Raised e)
      | Inr pick \<Rightarrow> ([Sent 200 (fallback pick)], Returned))"

subsection \<open>The upstream path\<close>

definition system_prompt :: string where
  "system_prompt =
     ''You are a concise relocation advisor expert for Costa Rica, Panama, and Belize.\<newline>''
     @ ''Given a user's structured answers, pick the single best country (Costa Rica, Panama, or Belize),\<newline>''
     @ ''explain why in 2-4 short bullet reasons, and list 3 cities with a brief reason for each. ''
     @ ''Put a disclaimer that this is only a suggestion and that speaking with a representative is important.\<newline>''
     @ ''Return a strict JSON object ONLY (no extra commentary).''"

definition user_prompt :: "world \<Rightarrow> jsval \<Rightarrow> string" where
  "user_prompt w answers =
     ''User answers (JSON): '' @ JSON_stringify w answers @ ''.\<newline>''
     @ ''Return JSON with keys:\<newline>''
     @ ''- country: string (one of \"Costa Rica\",\"Panama\",\"Belize\")\<newline>''
     @ ''- score: integer 0-100 (confidence)\<newline>''
     @ ''- reasons: array of short strings (2-4)\<newline>''
     @ ''- cities: array of { name: string, reason: string } (3 entries)\<newline>''
     @ ''Keep outputs short and concise.''"

definition build_request :: "world \<Rightarrow> jsval \<Rightarrow> string \<Rightarrow> fetch_request" where
  "build_request w answers key =
     \<lparr> fr_url = ''https://api.openai.com/v1/chat/completions'',
       fr_method = ''POST'',
       fr_headers = [(''Authorization'', ''Bearer '' @ key),
                     (''Content-Type'', ''application/json'')],
       fr_body = JSON_stringify w (JObj [
         (''model'', JStr ''gpt-3.5-turbo''),
         (''temperature'', JNum (35 / 100)),
         (''messages'', JArr [
            JObj [(''role'', JStr ''system''), (''content'', JStr system_prompt)],
            JObj [(''role'', JStr ''user''), (''content'', JStr (user_prompt w answers))]]),
         (''max_tokens'', JNum 400)]) \<rparr>"

text \<open>
  Line 131: \<^verbatim>\<open>j.choices?.[0]?.message?.content || ''\<close>. Only the first read is not
  optional, so it raises when \<open>j\<close> is \<^verbatim>\<open>null\<close>.
\<close>

definition assistant_content :: "jsval \<Rightarrow> js_error + jsval" where
  "assistant_content j =
     (case get_prop j ''choices'' of
        Inl e \<Rightarrow> Inl e
      | Inr choices \<Rightarrow>
         (let c = opt_prop (opt_prop (opt_index0 choices) ''message'') ''content''
          in Inr (if truthy c then c else JStr [])))"

text \<open>
  Lines 134 to 136, the body of the inner \<^verbatim>\<open>try\<close>: \<open>None\<close> when it raises (a SyntaxError
  of \<^verbatim>\<open>JSON.parse\<close>, or the TypeError of calling \<^verbatim>\<open>indexOf\<close> on a value without it). An
  array has \<^verbatim>\<open>indexOf\<close> and \<^verbatim>\<open>slice\<close> of its own, and \<^verbatim>\<open>JSON.parse\<close> then reads the
  string conversion of the sliced array.
\<close>

definition recover_json :: "world \<Rightarrow> jsval \<Rightarrow> jsval option" where
  "recover_json w assistant =
     (case assistant of
        JStr s \<Rightarrow>
          (let start = index_of (CHR ''{'') s;
               jsonText = (if start \<ge> 0 then slice_from start s else s)
           in JSON_parse w jsonText)
      | JArr xs \<Rightarrow>
          (let start = index_of (JStr ''{'') xs;
               jsonText = (if start \<ge> 0 then slice_from start xs else xs)
           in JSON_parse w (String_of w (JArr jsonText)))
      | _ \<Rightarrow> None)"

text \<open>
  Lines 106 to 142, the body of the outer \<^verbatim>\<open>try\<close>: the events it performs, and the
  exception that leaves it, if any.
\<close>

definition try_upstream :: "world \<Rightarrow> jsval \<Rightarrow> string \<Rightarrow> event list \<times> js_error option" where
  "try_upstream w answers key =
     (case getFetch w of
        Inl err \<Rightarrow> ([FetchLookup], Some err)
      | Inr fetchFn \<Rightarrow>
         (let rq = build_request w answers key in
          case fetchFn rq of
            Inl err \<Rightarrow> ([FetchLookup, UpstreamCall rq], Some err)
          | Inr resp \<Rightarrow>
             (if \<not> resp_ok resp then
                (case resp_text resp of
                   Inl err \<Rightarrow> ([FetchLookup, UpstreamCall rq], Some err)
                 | Inr txt \<Rightarrow>
                    ([FetchLookup, UpstreamCall rq,
                      Sent 502 (JObj [(''error'', JStr ''OpenAI API error''),
                                      (''status'', JNum (of_nat (resp_status resp))),
                                      (''body'', JStr txt)])], None))
              else
                (case resp_json resp of
                   Inl err \<Rightarrow> ([FetchLookup, UpstreamCall rq], Some err)
                 | Inr j \<Rightarrow>
                    (case assistant_content j of
                       Inl err \<Rightarrow> ([FetchLookup, UpstreamCall rq], Some err)
                     | Inr assistant \<Rightarrow>
                        ([FetchLookup, UpstreamCall rq,
                          Sent 200 (case recover_json w assistant of
                                      Some parsed \<Rightarrow> parsed
                                    | None \<Rightarrow> JObj [(''text'', assistant)])], None))))))"

text \<open>Lines 91 to 146: the outer \<^verbatim>\<open>try\<close> with its catch-all.\<close>

definition upstream_path :: "world \<Rightarrow> jsval \<Rightarrow> string \<Rightarrow> run" where
  "upstream_path w answers key =
     (case try_upstream w answers key of
        (evs, None) \<Rightarrow> (evs, Returned)
      | (evs, Some err) \<Rightarrow>
          (evs @ [Sent 500 (JObj [(''error'', JStr ''Server error''),
                                  (''message'', JStr (String_of_error w err))])], Returned))"

subsection \<open>The handler\<close>

text \<open>Lines 64 to 146: everything after \<open>answers\<close> is known.\<close>

definition with_answers :: "world \<Rightarrow> jsval \<Rightarrow> run" where
  "with_answers w answers =
     after [KeyLookup]
       (case getApiKey w of
          None \<Rightarrow> fallback_path answers
        | Some OPENAI_KEY \<Rightarrow> upstream_path w answers OPENAI_KEY)"

text \<open>Line 61: \<^verbatim>\<open>body.answers || {}\<close>. The read raises when \<open>body\<close> is \<^verbatim>\<open>null\<close>.\<close>

definition answers_of :: "jsval \<Rightarrow> js_error + jsval" where
  "answers_of body =
     (case get_prop body ''answers'' of
        Inl e \<Rightarrow> Inl e
      | Inr a \<Rightarrow> Inr (if truthy a then a else JObj []))"

text \<open>
  Lines 54 to 62. Line 61 stands outside any \<^verbatim>\<open>try\<close>, so its TypeError leaves the
  handler; so does an exception of the fallback path.
\<close>

definition handler :: "world \<Rightarrow> request \<Rightarrow> run" where
  "handler w req =
     (if req_method req \<noteq> ''POST'' then
        ([HeaderSet ''Allow'' ''POST'',
          Sent 405 (JObj [(''error'', JStr ''Method not allowed. Use POST.'')])], Returned)
      else
        (case readJsonBody w req of
           None \<Rightarrow> ([BodyRead], Pending)
         | Some body \<Rightarrow>
            (case answers_of body of
               Inl e \<Rightarrow> ([BodyRead], Raised e)
             | Inr answers \<Rightarrow> after [BodyRead] (with_answers w answers))))"

section \<open>The behaviour the specification describes\<close>

subsection \<open>Fallback decision rule\<close>

text \<open>
  The specification's normalisation of \<^verbatim>\<open>answers.destinations\<close> (a lone string is a
  one-element sequence, an absent field the empty sequence), its default for
  \<^verbatim>\<open>answers.relocationType\<close> (the empty string), and its decision rule, first match wins.
  Containment of the substring is \<open>sublist\<close>: some prefix and suffix surround it.
\<close>

definition spec_destinations :: "jsval \<Rightarrow> jsval list" where
  "spec_destinations d = (case d of JArr xs \<Rightarrow> xs | JStr s \<Rightarrow> [JStr s] | _ \<Rightarrow> [])"

definition spec_relocationType :: "jsval \<Rightarrow> string" where
  "spec_relocationType r = (case r of JStr s \<Rightarrow> s | _ \<Rightarrow> [])"

definition spec_pick :: "jsval list \<Rightarrow> string \<Rightarrow> string" where
  "spec_pick dests relocation =
     (if JStr ''panama'' \<in> set dests then ''Panama''
      else if JStr ''belize'' \<in> set dests then ''Belize''
      else if sublist ''work'' relocation then ''Panama''
      else ''Costa Rica'')"

text \<open>
  The field \<^verbatim>\<open>relocationType\<close> as the data model has it: a string, or nothing that
  counts (absent, or a falsy value such as \<^verbatim>\<open>null\<close>).
\<close>

definition string_or_falsy :: "jsval \<Rightarrow> bool" where
  "string_or_falsy r = (case r of JStr s \<Rightarrow> True | _ \<Rightarrow> \<not> truthy r)"

text \<open>The literal table of cities by country, each row a name and a reason.\<close>

definition city_table :: "(string \<times> (string \<times> string) list) list" where
  "city_table =
     [(''Costa Rica'', [(''San Jos'' @ [CHR 0xE9], ''Main hub with services''),
                        (''Guanacaste'', ''Popular expat/retirement spot''),
                        (''La Fortuna'', ''Leisure and nature options'')]),
      (''Panama'', [(''Panama City'', ''Main hub with services''),
                    (''Boquete'', ''Popular expat/retirement spot''),
                    (''David'', ''Leisure and nature options'')]),
      (''Belize'', [(''Belize City'', ''Main hub with services''),
                    (''San Pedro'', ''Popular expat/retirement spot''),
                    (''Caye Caulker'', ''Leisure and nature options'')])]"

text \<open>The rows as the body carries them: one \<^verbatim>\<open>{name, reason}\<close> object for each.\<close>

definition city_rows :: "(string \<times> string) list \<Rightarrow> jsval" where
  "city_rows rows =
     JArr (map (\<lambda>(name, reason). JObj [(''name'', JStr name), (''reason'', JStr reason)]) rows)"

subsection \<open>Credential resolution order\<close>

text \<open>
  The five candidates in their order; a candidate counts when its trimmed value is not
  empty, and the first that counts wins. An empty \<^verbatim>\<open>OPEN_AI_KEY_FILE\<close> names no file.
\<close>

definition nonempty_trimmed :: "string option \<Rightarrow> string option" where
  "nonempty_trimmed v =
     (case v of None \<Rightarrow> None | Some s \<Rightarrow> if js_trim s = [] then None else Some (js_trim s))"

fun first_found :: "string option list \<Rightarrow> string option" where
  "first_found [] = None"
| "first_found (None # cs) = first_found cs"
| "first_found (Some v # cs) = Some v"

definition credential_candidates :: "world \<Rightarrow> string option list" where
  "credential_candidates w =
     [nonempty_trimmed (process_env w ''OPENAI_API_KEY''),
      nonempty_trimmed (process_env w ''OPEN_AI_KEY''),
      (case process_env w ''OPEN_AI_KEY_FILE'' of
         None \<Rightarrow> None
       | Some p \<Rightarrow> if p = [] then None else nonempty_trimmed (readFileSync w p)),
      nonempty_trimmed (readFileSync w ''./OPEN_AI_KEY''),
      nonempty_trimmed (readFileSync w ''/run/secrets/OPEN_AI_KEY'')]"

subsection \<open>Recovery of JSON from the assistant's text\<close>

text \<open>The text from its first opening brace on, or all of it when it has none.\<close>

definition from_first_brace :: "string \<Rightarrow> string" where
  "from_first_brace s =
     (if CHR ''{'' \<in> set s then dropWhile (\<lambda>c. c \<noteq> CHR ''{'') s else s)"

text \<open>The value at \<^verbatim>\<open>choices?.[0]?.message?.content\<close>.\<close>

definition content_at :: "jsval \<Rightarrow> jsval" where
  "content_at choices = opt_prop (opt_prop (opt_index0 choices) ''message'') ''content''"

text \<open>
  What a successful upstream reply is answered with, by the content found at that path.
  A string is parsed from its first opening brace on and the parsed value is forwarded
  as it is, or \<^verbatim>\<open>{text}\<close> around the string when it does not parse. A falsy or absent
  content counts as the empty string. A truthy content that is neither a string nor an
  array goes into \<^verbatim>\<open>{text}\<close> unparsed. An array is cut at its first element \<^verbatim>\<open>"{"\<close>
  and the string conversion of the rest is parsed.
\<close>

definition forwarded :: "world \<Rightarrow> jsval \<Rightarrow> jsval" where
  "forwarded w content =
     (case content of
        JStr s \<Rightarrow>
          (case JSON_parse w (from_first_brace s) of
             Some parsed \<Rightarrow> parsed
           | None \<Rightarrow> JObj [(''text'', JStr s)])
      | JArr xs \<Rightarrow>
          (case JSON_parse w (String_of w (JArr
                  (if JStr ''{'' \<in> set xs then dropWhile (\<lambda>x. x \<noteq> JStr ''{'') xs else xs))) of
             Some parsed \<Rightarrow> parsed
           | None \<Rightarrow> JObj [(''text'', JArr xs)])
      | _ \<Rightarrow>
          if truthy content then JObj [(''text'', content)]
          else (case JSON_parse w [] of
                  Some parsed \<Rightarrow> parsed
                | None \<Rightarrow> JObj [(''text'', JStr [])]))"

text \<open>The body of the catch-all's response, with the error rendered as a string.\<close>

definition server_error :: "world \<Rightarrow> js_error \<Rightarrow> jsval" where
  "server_error w err =
     JObj [(''error'', JStr ''Server error''), (''message'', JStr (String_of_error w err))]"

section \<open>Example runtimes and requests\<close>

text \<open>
  A \<^verbatim>\<open>JSON.parse\<close> that knows four texts and rejects every other one; each of the four
  is parsed as the real one parses it, and none of the rejected texts used below is JSON.
\<close>

definition example_parse :: "string \<Rightarrow> jsval option" where
  "example_parse s =
     (if s = ''{}'' then Some (JObj [])
      else if s = ''null'' then Some JNull
      else if s = ''{\"answers\":{\"relocationType\":5}}''
        then Some (JObj [(''answers'', JObj [(''relocationType'', JNum 5)])])
      else if s = ''{\"country\":\"Belize\"}'' then Some (JObj [(''country'', JStr ''Belize'')])
      else None)"

text \<open>A runtime with no credential anywhere and no way to fetch.\<close>

definition offline_world :: world where
  "offline_world =
     \<lparr> process_env = (\<lambda>name. None),
       readFileSync = (\<lambda>path. None),
       JSON_parse = example_parse,
       JSON_stringify = (\<lambda>v. ''{}''),
       String_of = (\<lambda>v. []),
       TypeError_text = ''TypeError'',
       globalThis_fetch = None,
       import_node_fetch = Inl (External ''Error: Cannot find package 'node-fetch' '') \<rparr>"

text \<open>A runtime with the key in \<^verbatim>\<open>OPENAI_API_KEY\<close> and a native fetch that answers \<open>r\<close>.\<close>

definition online_world :: "upstream_response \<Rightarrow> world" where
  "online_world r =
     offline_world
       \<lparr> process_env := (\<lambda>name. if name = ''OPENAI_API_KEY'' then Some '' sk-test '' else None),
         globalThis_fetch := Some (\<lambda>rq. Inr r) \<rparr>"

text \<open>A chat completion with status 200 whose first choice carries the text \<open>c\<close>.\<close>

definition completion :: "string \<Rightarrow> upstream_response" where
  "completion c =
     \<lparr> resp_status = 200,
       resp_text = Inr [],
       resp_json = Inr (JObj [(''choices'',
                      JArr [JObj [(''message'', JObj [(''role'', JStr ''assistant''),
                                                     (''content'', JStr c)])]])]) \<rparr>"

text \<open>An upstream refusal: status 429 with a plain text body.\<close>

definition rate_limited :: upstream_response where
  "rate_limited =
     \<lparr> resp_status = 429,
       resp_text = Inr ''Rate limit reached'',
       resp_json = Inl (External ''SyntaxError: Unexpected token R'') \<rparr>"

text \<open>
  A reply with status 200 whose body is not JSON, so that \<^verbatim>\<open>resp.json()\<close> rejects, and one
  whose body is the JSON text \<^verbatim>\<open>null\<close>.
\<close>

definition html_reply :: upstream_response where
  "html_reply =
     \<lparr> resp_status = 200,
       resp_text = Inr ''<html>Bad gateway</html>'',
       resp_json = Inl (External ''SyntaxError: Unexpected token <'') \<rparr>"

definition null_reply :: upstream_response where
  "null_reply = \<lparr> resp_status = 200, resp_text = Inr ''null'', resp_json = Inr JNull \<rparr>"

text \<open>An upstream refusal whose body cannot be read: \<^verbatim>\<open>resp.text()\<close> rejects.\<close>

definition broken_refusal :: upstream_response where
  "broken_refusal =
     \<lparr> resp_status = 429,
       resp_text = Inl (External ''TypeError: terminated''),
       resp_json = Inl (External ''TypeError: terminated'') \<rparr>"

text \<open>A POST whose body the transport has parsed, and one whose body arrives as text.\<close>

definition parsed_post :: "jsval \<Rightarrow> request" where
  "parsed_post b = \<lparr> req_method = ''POST'', req_body = b, req_stream = [End] \<rparr>"

definition raw_post :: "string list \<Rightarrow> request" where
  "raw_post chunks =
     \<lparr> req_method = ''POST'', req_body = JUndefined, req_stream = map Data chunks @ [End] \<rparr>"

section \<open>Properties\<close>

subsection \<open>Fallback decision rule\<close>

lemma str_includes_sublist: "str_includes s n = sublist n s"
  by (induction s) (auto simp: sublist_Cons_right)

lemma normalize_dests_no_string:
  "x \<noteq> [] \<Longrightarrow> JStr x \<in> set (normalize_dests d) \<longleftrightarrow> JStr x \<in> set (spec_destinations d)"
  by (cases d) (auto simp: normalize_dests_def spec_destinations_def)

text \<open>
  Where the rule is followed: for every \<open>answers\<close> value that can be read, the country
  picked by lines 69 to 74 is the one \<open>spec_pick\<close> gives on the normalised destinations
  and the defaulted relocation string, as soon as a destination rule fires or
  \<^verbatim>\<open>relocationType\<close> is a string or counts as absent.
\<close>

lemma fallback_pick_follows_rule:
  assumes "get_prop answers ''destinations'' = Inr d"
    and "get_prop answers ''relocationType'' = Inr r"
    and "string_or_falsy r
         \<or> JStr ''panama'' \<in> set (normalize_dests d)
         \<or> JStr ''belize'' \<in> set (normalize_dests d)"
  shows "fallback_pick answers = Inr (spec_pick (spec_destinations d) (spec_relocationType r))"
proof (cases "JStr ''panama'' \<in> set (normalize_dests d) \<or> JStr ''belize'' \<in> set (normalize_dests d)")
  case True
  then show ?thesis
    using assms(1,2)
    by (auto simp: fallback_pick_def spec_pick_def Let_def normalize_dests_no_string)
next
  case False
  with assms(3) have typed: "string_or_falsy r" by blast
  show ?thesis
  proof (cases r)
    case (JStr s)
    then show ?thesis
      using assms(1,2)
      by (simp add: fallback_pick_def spec_pick_def spec_relocationType_def Let_def
          normalize_dests_no_string str_includes_sublist)
  next
    case JUndefined
    then show ?thesis
      using assms(1,2)
      by (simp add: fallback_pick_def spec_pick_def spec_relocationType_def Let_def
          normalize_dests_no_string)
  next
    case JNull
    then show ?thesis
      using assms(1,2)
      by (simp add: fallback_pick_def spec_pick_def spec_relocationType_def Let_def
          normalize_dests_no_string)
  next
    case (JBool b)
    then show ?thesis
      using assms(1,2) typed
      by (simp add: fallback_pick_def spec_pick_def spec_relocationType_def Let_def
          normalize_dests_no_string string_or_falsy_def)
  next
    case (JNum n)
    then show ?thesis
      using assms(1,2) typed
      by (simp add: fallback_pick_def spec_pick_def spec_relocationType_def Let_def
          normalize_dests_no_string string_or_falsy_def)
  next
    case (JArr xs)
    then show ?thesis using typed by (simp add: string_or_falsy_def)
  next
    case (JObj kvs)
    then show ?thesis using typed by (simp add: string_or_falsy_def)
  qed
qed

text \<open>
  C1. The picked country does not follow the rule for every \<open>answers\<close> object. With no
  destination and the \<^verbatim>\<open>relocationType\<close> 5, the rule gives "Costa Rica" (no destination
  matches, and there is no relocation string that contains "work"), but line 74 calls
  \<^verbatim>\<open>includes\<close> on the number and raises a TypeError: no country is picked. With the
  \<^verbatim>\<open>relocationType\<close> \<^verbatim>\<open>["work"]\<close> the rule gives "Costa Rica" as well, and line 74 picks
  "Panama", because \<^verbatim>\<open>includes\<close> on an array tests its elements.
\<close>

theorem fallback_pick_departs_from_rule:
  "fallback_pick (JObj [(''relocationType'', JNum 5)]) = Inl TypeError
   \<and> spec_pick (spec_destinations JUndefined) (spec_relocationType (JNum 5)) = ''Costa Rica''
   \<and> fallback_pick (JObj [(''relocationType'', JArr [JStr ''work''])]) = Inr ''Panama''
   \<and> spec_pick (spec_destinations JUndefined) (spec_relocationType (JArr [JStr ''work'']))
       = ''Costa Rica''"
  by (simp add: fallback_pick_def normalize_dests_def spec_pick_def spec_destinations_def
      spec_relocationType_def)

lemma js_trim_Nil: "js_trim [] = []"
  by (simp add: js_trim_def)

subsection \<open>Credential resolver\<close>

text \<open>
  C7. \<^verbatim>\<open>getApiKey\<close> returns the first non-empty trimmed value among, in this order, the
  environment variable \<^verbatim>\<open>OPENAI_API_KEY\<close>, the environment variable \<^verbatim>\<open>OPEN_AI_KEY\<close>, the
  file named by \<^verbatim>\<open>OPEN_AI_KEY_FILE\<close>, the file \<^verbatim>\<open>./OPEN_AI_KEY\<close> and the file
  \<^verbatim>\<open>/run/secrets/OPEN_AI_KEY\<close>, and nothing when none of the five has one. A file that
  cannot be read is a candidate without a value; the resolver is total, so it never
  raises.
\<close>

theorem getApiKey_resolution_order: "getApiKey w = first_found (credential_candidates w)"
  by (auto simp: getApiKey_def credential_candidates_def env_has_key_def env_trimmed_def
      tryReadFileSync_def nonempty_trimmed_def Let_def js_trim_Nil split: option.splits)

subsection \<open>Method check\<close>

text \<open>
  C9. For every request whose method is not POST the handler sets the header
  \<^verbatim>\<open>Allow: POST\<close>, responds with status 405 and the body
  \<^verbatim>\<open>{error: "Method not allowed. Use POST."}\<close>, and does nothing else: the body is not
  read, no credential is looked up and no upstream call is made.
\<close>

theorem non_post_rejected:
  assumes "req_method req \<noteq> ''POST''"
  shows "handler w req =
           ([HeaderSet ''Allow'' ''POST'',
             Sent 405 (JObj [(''error'', JStr ''Method not allowed. Use POST.'')])], Returned)
         \<and> BodyRead \<notin> set (fst (handler w req))
         \<and> KeyLookup \<notin> set (fst (handler w req))
         \<and> upstream_calls (fst (handler w req)) = []"
  using assms by (simp add: handler_def)

theorem non_post_rejected_witness:
  "responses (fst (handler offline_world \<lparr> req_method = ''GET'', req_body = JUndefined, req_stream = [End] \<rparr>))
     = [(405, JObj [(''error'', JStr ''Method not allowed. Use POST.'')])]"
  using non_post_rejected [of "\<lparr> req_method = ''GET'', req_body = JUndefined, req_stream = [End] \<rparr>" offline_world]
  by simp

subsection \<open>Case sensitivity of the fallback rule\<close>

text \<open>
  C10. The fallback rule matches exactly and case-sensitively. When the normalised
  destinations hold neither "panama" nor "belize" in lower case (whatever else they
  hold, "Panama" or "PANAMA" included), neither destination rule fires: "Belize" is never
  picked, and "Panama" only through the next rule, the test of \<^verbatim>\<open>relocationType\<close> for
  lower-case "work". With a \<^verbatim>\<open>relocationType\<close> that is a string or counts as absent the
  pick is "Panama" when that string contains lower-case "work" and the default
  "Costa Rica" otherwise; in particular "Work" and an absent \<^verbatim>\<open>relocationType\<close> lead to
  "Costa Rica".
\<close>

theorem fallback_match_case_sensitive:
  assumes "get_prop answers ''destinations'' = Inr d"
    and "get_prop answers ''relocationType'' = Inr r"
    and "JStr ''panama'' \<notin> set (normalize_dests d)"
    and "JStr ''belize'' \<notin> set (normalize_dests d)"
  shows "fallback_pick answers \<noteq> Inr ''Belize''
         \<and> (fallback_pick answers = Inr ''Panama'' \<longrightarrow> js_includes r ''work'' = Inr True)
         \<and> (string_or_falsy r \<longrightarrow>
              fallback_pick answers =
                Inr (if sublist ''work'' (spec_relocationType r) then ''Panama'' else ''Costa Rica''))
         \<and> (r = JStr ''Work'' \<or> \<not> truthy r \<longrightarrow> fallback_pick answers = Inr ''Costa Rica'')"
proof -
  have nw: "\<not> sublist ''work'' ''Work''"
    using str_includes_sublist [of "''Work''" "''work''"] by simp
  have nb: "fallback_pick answers \<noteq> Inr ''Belize''"
    using assms by (auto simp: fallback_pick_def Let_def split: sum.splits)
  have pa: "fallback_pick answers = Inr ''Panama'' \<longrightarrow> js_includes r ''work'' = Inr True"
    using assms by (auto simp: fallback_pick_def Let_def split: sum.splits if_splits)
  have typed: "fallback_pick answers =
      Inr (if sublist ''work'' (spec_relocationType r) then ''Panama'' else ''Costa Rica'')"
    if "string_or_falsy r"
    using that assms
    by (cases r)
      (simp_all add: fallback_pick_def Let_def string_or_falsy_def spec_relocationType_def
        str_includes_sublist)
  have cr: "fallback_pick answers = Inr ''Costa Rica''" if "r = JStr ''Work'' \<or> \<not> truthy r"
  proof -
    from that have s: "string_or_falsy r"
      by (cases r) (auto simp: string_or_falsy_def)
    from that have "\<not> sublist ''work'' (spec_relocationType r)"
      using nw by (cases r) (auto simp: spec_relocationType_def)
    with typed [OF s] show ?thesis by simp
  qed
  from nb pa typed cr show ?thesis by blast
qed

theorem fallback_match_case_sensitive_witness:
  "fallback_pick (JObj [(''destinations'', JArr [JStr ''Panama'', JStr ''PANAMA'']),
                        (''relocationType'', JStr ''Work'')]) = Inr ''Costa Rica''
   \<and> fallback_pick (JObj [(''destinations'', JArr [JStr ''Panama''])]) = Inr ''Costa Rica''
   \<and> fallback_pick (JObj [(''destinations'', JStr ''PANAMA''),
                          (''relocationType'', JStr ''remote work'')]) = Inr ''Panama''"
proof -
  have a: "fallback_pick (JObj [(''destinations'', JArr [JStr ''Panama'', JStr ''PANAMA'']),
                                (''relocationType'', JStr ''Work'')]) = Inr ''Costa Rica''"
    using fallback_match_case_sensitive
      [of "JObj [(''destinations'', JArr [JStr ''Panama'', JStr ''PANAMA'']),
                 (''relocationType'', JStr ''Work'')]"
          "JArr [JStr ''Panama'', JStr ''PANAMA'']" "JStr ''Work''"]
    by (simp add: normalize_dests_def)
  have b: "fallback_pick (JObj [(''destinations'', JArr [JStr ''Panama''])]) = Inr ''Costa Rica''"
    using fallback_match_case_sensitive
      [of "JObj [(''destinations'', JArr [JStr ''Panama''])]" "JArr [JStr ''Panama'']" JUndefined]
    by (simp add: normalize_dests_def)
  have w: "sublist ''work'' ''remote work''"
    using str_includes_sublist [of "''remote work''" "''work''"] by simp
  have c: "fallback_pick (JObj [(''destinations'', JStr ''PANAMA''),
                                (''relocationType'', JStr ''remote work'')]) = Inr ''Panama''"
    using fallback_match_case_sensitive
      [of "JObj [(''destinations'', JStr ''PANAMA''), (''relocationType'', JStr ''remote work'')]"
          "JStr ''PANAMA''" "JStr ''remote work''"] w
    by (simp add: normalize_dests_def string_or_falsy_def spec_relocationType_def)
  from a b c show ?thesis by simp
qed

subsection \<open>The fallback response\<close>

lemma answers_of_readable:
  assumes "answers_of body = Inr answers"
  shows "\<exists>v. get_prop answers k = Inr v"
proof -
  from assms have "truthy answers"
    by (auto simp: answers_of_def split: sum.splits if_splits)
  then show ?thesis by (cases answers) simp_all
qed

lemma fallback_pick_total:
  assumes "get_prop answers ''destinations'' = Inr d"
    and "get_prop answers ''relocationType'' = Inr r"
    and "string_or_falsy r"
  shows "\<exists>pick. fallback_pick answers = Inr pick"
  using assms
  by (cases r) (simp_all add: fallback_pick_def Let_def string_or_falsy_def)

lemma fallback_pick_range:
  "fallback_pick answers = Inr pick \<Longrightarrow> pick \<in> {''Panama'', ''Belize'', ''Costa Rica''}"
  by (auto simp: fallback_pick_def Let_def split: sum.splits if_splits)

lemma fallback_shape:
  "get_prop (fallback pick) ''country'' = Inr (JStr pick)"
  "get_prop (fallback pick) ''score'' = Inr (JNum 75)"
  "get_prop (fallback pick) ''reasons'' =
     Inr (JArr [JStr (''Based on your selections, '' @ pick @ '' aligns best with your priorities.''),
                JStr ''Good balance of lifestyle, services, and accessibility for your needs.''])"
  by (simp_all add: fallback_def)

lemma fallback_cities:
  assumes "pick \<in> {''Panama'', ''Belize'', ''Costa Rica''}"
  shows "\<exists>rows. map_of city_table pick = Some rows \<and> length rows = 3
           \<and> get_prop (fallback pick) ''cities'' = Inr (city_rows rows)"
  using assms by (auto simp: fallback_def city_table_def city_rows_def city_def)

lemma handler_fallback:
  assumes "req_method req = ''POST''"
    and "readJsonBody w req = Some body"
    and "answers_of body = Inr answers"
    and "getApiKey w = None"
    and "fallback_pick answers = Inr pick"
  shows "handler w req = ([BodyRead, KeyLookup, Sent 200 (fallback pick)], Returned)"
  using assms by (simp add: handler_def with_answers_def fallback_path_def after_def)

text \<open>
  Where the fallback response is sent: when no credential is resolved, a POST whose body
  has been read as a value other than \<^verbatim>\<open>null\<close>, with a \<^verbatim>\<open>relocationType\<close> that is a string
  or counts as absent, is answered with status 200 and the fallback object around the
  picked country: its score is 75, its reasons are the two template strings with the
  country's name in the first, and its cities are the three \<^verbatim>\<open>{name, reason}\<close> rows of
  the table for that country. The invocation reads the body, looks the key up, sends this
  one response and returns; it makes no upstream call.
\<close>

lemma fallback_response_on_typed_request:
  assumes "req_method req = ''POST''"
    and "readJsonBody w req = Some body"
    and "answers_of body = Inr answers"
    and "get_prop answers ''relocationType'' = Inr r"
    and "string_or_falsy r"
    and "getApiKey w = None"
  shows "\<exists>pick rows.
           fallback_pick answers = Inr pick
         \<and> map_of city_table pick = Some rows
         \<and> length rows = 3
         \<and> handler w req = ([BodyRead, KeyLookup, Sent 200 (fallback pick)], Returned)
         \<and> get_prop (fallback pick) ''country'' = Inr (JStr pick)
         \<and> get_prop (fallback pick) ''score'' = Inr (JNum 75)
         \<and> get_prop (fallback pick) ''reasons'' =
             Inr (JArr [JStr (''Based on your selections, '' @ pick
                                @ '' aligns best with your priorities.''),
                        JStr ''Good balance of lifestyle, services, and accessibility for your needs.''])
         \<and> get_prop (fallback pick) ''cities'' = Inr (city_rows rows)
         \<and> upstream_calls (fst (handler w req)) = []"
proof -
  obtain d where d: "get_prop answers ''destinations'' = Inr d"
    using answers_of_readable [OF assms(3)] by blast
  obtain pick where pick: "fallback_pick answers = Inr pick"
    using fallback_pick_total [OF d assms(4) assms(5)] by blast
  have run: "handler w req = ([BodyRead, KeyLookup, Sent 200 (fallback pick)], Returned)"
    by (rule handler_fallback [OF assms(1) assms(2) assms(3) assms(6) pick])
  obtain rows where rows: "map_of city_table pick = Some rows" "length rows = 3"
    "get_prop (fallback pick) ''cities'' = Inr (city_rows rows)"
    using fallback_cities [OF fallback_pick_range [OF pick]] by blast
  have calls: "upstream_calls (fst (handler w req)) = []"
    by (simp add: run)
  show ?thesis
    using pick run rows calls fallback_shape [of pick] by blast
qed

lemma offline_no_key: "getApiKey offline_world = None"
  by (simp add: getApiKey_def offline_world_def env_has_key_def tryReadFileSync_def)

lemma fallback_response_example:
  "handler offline_world (parsed_post (JObj [(''answers'', JObj [(''destinations'', JStr ''panama'')])]))
     = ([BodyRead, KeyLookup, Sent 200 (fallback ''Panama'')], Returned)"
  by (simp add: handler_def parsed_post_def readJsonBody_def answers_of_def with_answers_def
      offline_no_key fallback_path_def fallback_pick_def normalize_dests_def after_def)

text \<open>
  C2. Not every request is answered with the fallback object when no credential is
  resolved. In a runtime without any credential, a POST with the body
  \<^verbatim>\<open>{answers: {relocationType: 5}}\<close> has its body read and the key looked up; then line 74
  calls \<^verbatim>\<open>includes\<close> on the number, outside any \<^verbatim>\<open>try\<close>, and the invocation ends by
  raising a TypeError to its caller. No response is sent: no status 200, no score, no
  reasons, no cities.
\<close>

theorem no_credential_request_unanswered:
  "getApiKey offline_world = None
   \<and> handler offline_world (parsed_post (JObj [(''answers'', JObj [(''relocationType'', JNum 5)])]))
       = ([BodyRead, KeyLookup], Raised TypeError)
   \<and> responses (fst (handler offline_world
         (parsed_post (JObj [(''answers'', JObj [(''relocationType'', JNum 5)])])))) = []"
  by (simp add: handler_def parsed_post_def readJsonBody_def answers_of_def with_answers_def
      offline_no_key fallback_path_def fallback_pick_def normalize_dests_def after_def)

subsection \<open>Three cities\<close>

lemma fallback_three_cities:
  "\<exists>cs. get_prop (fallback pick) ''cities'' = Inr (JArr cs) \<and> length cs = 3"
  by (simp add: fallback_def)

lemma fallback_path_responses:
  "(s, b) \<in> set (responses (fst (fallback_path answers))) \<Longrightarrow> \<exists>pick. s = 200 \<and> b = fallback pick"
  by (auto simp: fallback_path_def split: sum.splits)

lemma responses_append: "responses (xs @ ys) = responses xs @ responses ys"
  by (induction xs rule: responses.induct) simp_all

text \<open>
  C3, as amended. Every response with status 200 that the handler sends when no credential
  is resolved (the fallback path) has a \<^verbatim>\<open>cities\<close> field that is a sequence of exactly
  three entries. Nothing of the kind is promised on the upstream path, where the body is
  whatever the assistant's text parses to, or \<^verbatim>\<open>{text}\<close>.
\<close>

theorem fallback_response_three_cities:
  assumes "getApiKey w = None"
    and "(200, b) \<in> set (responses (fst (handler w req)))"
  shows "\<exists>cs. get_prop b ''cities'' = Inr (JArr cs) \<and> length cs = 3"
proof -
  from assms have "\<exists>answers. (200, b) \<in> set (responses (fst (fallback_path answers)))"
    by (auto simp: handler_def with_answers_def after_def responses_append
        split: if_splits option.splits sum.splits)
  then obtain pick where "b = fallback pick"
    using fallback_path_responses by blast
  then show ?thesis by (simp add: fallback_three_cities)
qed

theorem fallback_response_three_cities_witness:
  "(200, fallback ''Belize'') \<in> set (responses (fst (handler offline_world
       (parsed_post (JObj [(''answers'', JObj [(''destinations'', JArr [JStr ''belize''])])])))))
   \<and> (case get_prop (fallback ''Belize'') ''cities'' of
        Inr (JArr cs) \<Rightarrow> length cs = 3
      | _ \<Rightarrow> False)"
proof -
  let ?req = "parsed_post (JObj [(''answers'', JObj [(''destinations'', JArr [JStr ''belize''])])])"
  have "handler offline_world ?req = ([BodyRead, KeyLookup, Sent 200 (fallback ''Belize'')], Returned)"
    by (simp add: handler_def parsed_post_def readJsonBody_def answers_of_def with_answers_def
        offline_no_key fallback_path_def fallback_pick_def normalize_dests_def after_def)
  then have sent: "(200, fallback ''Belize'') \<in> set (responses (fst (handler offline_world ?req)))"
    by simp
  from fallback_response_three_cities [OF offline_no_key sent]
  obtain cs where "get_prop (fallback ''Belize'') ''cities'' = Inr (JArr cs)" "length cs = 3"
    by blast
  with sent show ?thesis by simp
qed

lemma online_key: "getApiKey (online_world r) = Some ''sk-test''"
  by (simp add: getApiKey_def online_world_def offline_world_def env_has_key_def env_trimmed_def
      js_trim_def is_space_def)

lemma online_fetch: "getFetch (online_world r) = Inr (\<lambda>rq. Inr r)"
  by (simp add: getFetch_def online_world_def offline_world_def)

lemma online_parse: "JSON_parse (online_world r) = example_parse"
  by (simp add: online_world_def offline_world_def)

text \<open>
  C3 as stated fails on the upstream-success path. With a key in the environment and an
  upstream completion whose text is plain prose, the handler answers 200 with
  \<^verbatim>\<open>{text: "Panama is a fine choice."}\<close>, a body without any \<^verbatim>\<open>cities\<close> field.
\<close>

theorem upstream_text_reply_has_no_cities:
  "responses (fst (handler (online_world (completion ''Panama is a fine choice.''))
                           (parsed_post (JObj [(''answers'', JObj [])]))))
     = [(200, JObj [(''text'', JStr ''Panama is a fine choice.'')])]
   \<and> get_prop (JObj [(''text'', JStr ''Panama is a fine choice.'')]) ''cities'' = Inr JUndefined"
  by (simp add: handler_def parsed_post_def readJsonBody_def answers_of_def with_answers_def
      online_key upstream_path_def try_upstream_def online_fetch completion_def resp_ok_def
      assistant_content_def opt_prop_def recover_json_def index_of_def online_parse
      example_parse_def after_def)

subsection \<open>Requests that get no response\<close>

text \<open>
  C4. The handler does not respond to every request. A POST whose body text is
  \<^verbatim>\<open>null\<close> is parsed to \<^verbatim>\<open>null\<close> by \<^verbatim>\<open>readJsonBody\<close>; the read \<^verbatim>\<open>body.answers\<close> at
  line 61, outside any \<^verbatim>\<open>try\<close>, raises a TypeError, and the invocation ends by raising
  to its caller after the body read, with no response sent.
\<close>

theorem handler_raises_on_null_body:
  "handler offline_world (raw_post [''null'']) = ([BodyRead], Raised TypeError)
   \<and> responses (fst (handler offline_world (raw_post [''null'']))) = []"
  by (simp add: handler_def raw_post_def readJsonBody_def offline_world_def example_parse_def
      answers_of_def)

text \<open>
  The same happens at line 74 when \<^verbatim>\<open>relocationType\<close> is a number: a number has no
  \<^verbatim>\<open>includes\<close>, and the call stands outside any \<^verbatim>\<open>try\<close> as well.
\<close>

lemma handler_raises_on_numeric_relocationType:
  "handler offline_world (raw_post [''{\"answers\":{\"relocationType\":5}}''])
     = ([BodyRead, KeyLookup], Raised TypeError)"
proof -
  have "readJsonBody offline_world (raw_post [''{\"answers\":{\"relocationType\":5}}''])
          = Some (JObj [(''answers'', JObj [(''relocationType'', JNum 5)])])"
    by (simp add: raw_post_def readJsonBody_def offline_world_def example_parse_def)
  then show ?thesis
    by (simp add: handler_def raw_post_def answers_of_def with_answers_def offline_no_key
        fallback_path_def fallback_pick_def normalize_dests_def after_def)
qed


text \<open>
  What does hold for every request: an invocation sends at most one response, with a
  status among 200, 405, 500 and 502, and it returns exactly when it has sent one.
  Otherwise it has sent nothing and ends by raising, or not at all (a stream that never
  ends).
\<close>

lemma try_upstream_sent:
  "try_upstream w answers key = (evs, None) \<Longrightarrow>
     \<exists>s b. responses evs = [(s, b)] \<and> (s = 200 \<or> s = 502)"
  by (auto simp: try_upstream_def Let_def split: sum.splits if_splits)

lemma try_upstream_raised:
  "try_upstream w answers key = (evs, Some err) \<Longrightarrow> responses evs = []"
  by (auto simp: try_upstream_def Let_def split: sum.splits if_splits)

lemma upstream_path_responds:
  "\<exists>s b. snd (upstream_path w answers key) = Returned
     \<and> responses (fst (upstream_path w answers key)) = [(s, b)]
     \<and> (s = 200 \<or> s = 500 \<or> s = 502)"
proof (cases "try_upstream w answers key")
  case (Pair evs exc)
  show ?thesis
  proof (cases exc)
    case None
    with Pair try_upstream_sent [of w answers key evs] show ?thesis
      by (auto simp: upstream_path_def)
  next
    case (Some err)
    with Pair try_upstream_raised [of w answers key evs err] show ?thesis
      by (simp add: upstream_path_def responses_append)
  qed
qed

lemma fallback_path_outcome:
  "(snd (fallback_path answers) = Returned
      \<and> (\<exists>b. responses (fst (fallback_path answers)) = [(200, b)]))
   \<or> ((\<exists>e. snd (fallback_path answers) = Raised e)
      \<and> responses (fst (fallback_path answers)) = [])"
  by (cases "fallback_pick answers") (simp_all add: fallback_path_def)

lemma with_answers_outcome:
  "(snd (with_answers w answers) = Returned
      \<and> (\<exists>s b. responses (fst (with_answers w answers)) = [(s, b)]
             \<and> (s = 200 \<or> s = 500 \<or> s = 502)))
   \<or> ((\<exists>e. snd (with_answers w answers) = Raised e)
      \<and> responses (fst (with_answers w answers)) = [])"
proof (cases "getApiKey w")
  case None
  with fallback_path_outcome [of answers] show ?thesis
    by (auto simp: with_answers_def after_def)
next
  case (Some key)
  with upstream_path_responds [of w answers key] show ?thesis
    by (auto simp: with_answers_def after_def)
qed

lemma handler_outcome:
  "(snd (handler w req) = Returned
      \<and> (\<exists>s b. responses (fst (handler w req)) = [(s, b)]
             \<and> (s = 200 \<or> s = 405 \<or> s = 500 \<or> s = 502)))
   \<or> (snd (handler w req) \<noteq> Returned \<and> responses (fst (handler w req)) = [])"
proof (cases "req_method req \<noteq> ''POST''")
  case True
  then show ?thesis by (simp add: handler_def)
next
  case post: False
  show ?thesis
  proof (cases "readJsonBody w req")
    case None
    with post show ?thesis by (simp add: handler_def)
  next
    case (Some body)
    show ?thesis
    proof (cases "answers_of body")
      case (Inl e)
      with post Some show ?thesis by (simp add: handler_def)
    next
      case (Inr answers)
      with post Some have "handler w req = after [BodyRead] (with_answers w answers)"
        by (simp add: handler_def)
      with with_answers_outcome [of w answers] show ?thesis
        by (auto simp: after_def)
    qed
  qed
qed

subsection \<open>The upstream path\<close>

lemma recover_json_string: "recover_json w (JStr s) = JSON_parse w (from_first_brace s)"
  by (simp add: recover_json_def index_of_def slice_from_def from_first_brace_def Let_def
      dropWhile_eq_drop)

lemma handler_upstream:
  assumes "req_method req = ''POST''"
    and "readJsonBody w req = Some body"
    and "answers_of body = Inr answers"
    and "getApiKey w = Some key"
  shows "handler w req = after [BodyRead, KeyLookup] (upstream_path w answers key)"
  using assms by (simp add: handler_def with_answers_def after_def)

lemma from_first_drop:
  "(if 0 \<le> index_of x xs then slice_from (index_of x xs) xs else xs)
     = (if x \<in> set xs then dropWhile (\<lambda>y. y \<noteq> x) xs else xs)"
  by (simp add: index_of_def slice_from_def dropWhile_eq_drop)

lemma recovered_is_forwarded:
  "(case recover_json w (if truthy c then c else JStr []) of
      Some parsed \<Rightarrow> parsed
    | None \<Rightarrow> JObj [(''text'', if truthy c then c else JStr [])])
   = forwarded w c"
  by (cases c)
    (auto simp: recover_json_def forwarded_def from_first_brace_def Let_def from_first_drop
      split: option.splits)

lemma try_upstream_response:
  assumes "getFetch w = Inr fetchFn"
    and "fetchFn (build_request w answers key) = Inr resp"
  shows "upstream_path w answers key =
           ([FetchLookup, UpstreamCall (build_request w answers key),
             (if \<not> resp_ok resp then
                (case resp_text resp of
                   Inr txt \<Rightarrow>
                     Sent 502 (JObj [(''error'', JStr ''OpenAI API error''),
                                     (''status'', JNum (of_nat (resp_status resp))),
                                     (''body'', JStr txt)])
                 | Inl err \<Rightarrow> Sent 500 (server_error w err))
              else
                (case resp_json resp of
                   Inl err \<Rightarrow> Sent 500 (server_error w err)
                 | Inr j \<Rightarrow>
                    (case get_prop j ''choices'' of
                       Inl err \<Rightarrow> Sent 500 (server_error w err)
                     | Inr choices \<Rightarrow> Sent 200 (forwarded w (content_at choices)))))],
            Returned)"
  using assms
  by (simp add: upstream_path_def try_upstream_def Let_def assistant_content_def server_error_def
      recovered_is_forwarded content_at_def split: sum.splits)

text \<open>
  C5, as amended. On the upstream path with a successful upstream response (status 200
  to 299): when the body is read as a JSON value other than \<^verbatim>\<open>null\<close>, the handler takes the
  assistant content at \<^verbatim>\<open>choices[0].message.content\<close> (the empty string when the path is
  absent or the value falsy) and responds 200 with \<open>forwarded\<close> of it: a content string is
  parsed from its first opening brace on (all of it when it has none), the parsed value
  is sent as it is when the parse succeeds, and \<^verbatim>\<open>{text: <the content>}\<close> when it fails.
  When the body cannot be read as JSON, or is \<^verbatim>\<open>null\<close>, the catch-all responds 500 with
  \<^verbatim>\<open>{error: "Server error", message}\<close>. Either way this is the one response of the
  invocation.
\<close>

theorem upstream_success_reply:
  assumes "req_method req = ''POST''"
    and "readJsonBody w req = Some body"
    and "answers_of body = Inr answers"
    and "getApiKey w = Some key"
    and "getFetch w = Inr fetchFn"
    and "fetchFn (build_request w answers key) = Inr resp"
    and "resp_ok resp"
  shows "handler w req =
           ([BodyRead, KeyLookup, FetchLookup, UpstreamCall (build_request w answers key),
             (case resp_json resp of
                Inl err \<Rightarrow> Sent 500 (server_error w err)
              | Inr j \<Rightarrow>
                 (case get_prop j ''choices'' of
                    Inl err \<Rightarrow> Sent 500 (server_error w err)
                  | Inr choices \<Rightarrow> Sent 200 (forwarded w (content_at choices))))],
            Returned)"
  using assms(7)
  by (simp add: handler_upstream [OF assms(1-4)] try_upstream_response [OF assms(5,6)] after_def)

theorem upstream_success_reply_witness:
  "handler (online_world (completion ''here you go: {\"country\":\"Belize\"}''))
           (parsed_post (JObj [(''answers'', JObj [])]))
     = ([BodyRead, KeyLookup, FetchLookup,
         UpstreamCall (build_request (online_world (completion ''here you go: {\"country\":\"Belize\"}''))
                         (JObj []) ''sk-test''),
         Sent 200 (JObj [(''country'', JStr ''Belize'')])], Returned)"
proof -
  let ?c = "''here you go: {\"country\":\"Belize\"}''"
  let ?w = "online_world (completion ?c)"
  let ?body = "JObj [(''answers'', JObj [])]"
  let ?choices = "JArr [JObj [(''message'', JObj [(''role'', JStr ''assistant''), (''content'', JStr ?c)])]]"
  have 1: "req_method (parsed_post ?body) = ''POST''" by (simp add: parsed_post_def)
  have 2: "readJsonBody ?w (parsed_post ?body) = Some ?body"
    by (simp add: readJsonBody_def parsed_post_def)
  have 3: "answers_of ?body = Inr (JObj [])" by (simp add: answers_of_def)
  have 6: "(\<lambda>rq. Inr (completion ?c)) (build_request ?w (JObj []) ''sk-test'') = Inr (completion ?c)"
    by simp
  have 7: "resp_ok (completion ?c)" by (simp add: resp_ok_def completion_def)
  have 8: "resp_json (completion ?c) = Inr (JObj [(''choices'', ?choices)])"
    by (simp add: completion_def)
  have 9: "content_at ?choices = JStr ?c"
    by (simp add: content_at_def opt_prop_def)
  have p: "forwarded ?w (JStr ?c) = JObj [(''country'', JStr ''Belize'')]"
    by (simp add: forwarded_def online_parse from_first_brace_def example_parse_def)
  from upstream_success_reply [OF 1 2 3 online_key online_fetch 6 7] 8 9 p
  show ?thesis by simp
qed

text \<open>
  C5 as stated fails on a successful upstream response whose body is not JSON, and on one
  whose body is \<^verbatim>\<open>null\<close>: \<^verbatim>\<open>resp.json()\<close> rejects, or \<^verbatim>\<open>j.choices\<close> raises, inside the
  outer \<^verbatim>\<open>try\<close>, and the catch-all responds 500 rather than 200.
\<close>

theorem upstream_success_without_content_gives_500:
  "resp_ok html_reply
   \<and> responses (fst (handler (online_world html_reply) (parsed_post (JObj [(''answers'', JObj [])]))))
       = [(500, JObj [(''error'', JStr ''Server error''),
                      (''message'', JStr ''SyntaxError: Unexpected token <'')])]
   \<and> resp_ok null_reply
   \<and> responses (fst (handler (online_world null_reply) (parsed_post (JObj [(''answers'', JObj [])]))))
       = [(500, JObj [(''error'', JStr ''Server error''), (''message'', JStr ''TypeError'')])]"
proof -
  have msg: "TypeError_text (online_world r) = ''TypeError''" for r
    by (simp add: online_world_def offline_world_def)
  show ?thesis
    by (simp add: handler_def parsed_post_def readJsonBody_def answers_of_def with_answers_def
        online_key upstream_path_def try_upstream_def online_fetch html_reply_def null_reply_def
        resp_ok_def assistant_content_def after_def msg)
qed

text \<open>
  C6, as amended. On the upstream path, whenever the upstream response is not ok (its
  status is outside 200 to 299) and its body is read as the text \<open>txt\<close>, the handler
  responds with status 502 and the body
  \<^verbatim>\<open>{error: "OpenAI API error", status: <upstream status>, body: txt}\<close>; when reading the
  body as text fails, the catch-all responds 500 with \<^verbatim>\<open>{error: "Server error", message}\<close>.
  Either way this is the one response of the invocation, and the content of the upstream
  body is never parsed.
\<close>

theorem upstream_failure_reply:
  assumes "req_method req = ''POST''"
    and "readJsonBody w req = Some body"
    and "answers_of body = Inr answers"
    and "getApiKey w = Some key"
    and "getFetch w = Inr fetchFn"
    and "fetchFn (build_request w answers key) = Inr resp"
    and "\<not> resp_ok resp"
  shows "handler w req =
           ([BodyRead, KeyLookup, FetchLookup, UpstreamCall (build_request w answers key),
             (case resp_text resp of
                Inr txt \<Rightarrow>
                  Sent 502 (JObj [(''error'', JStr ''OpenAI API error''),
                                  (''status'', JNum (of_nat (resp_status resp))),
                                  (''body'', JStr txt)])
              | Inl err \<Rightarrow> Sent 500 (server_error w err))],
            Returned)"
  using assms(7)
  by (simp add: handler_upstream [OF assms(1-4)] try_upstream_response [OF assms(5,6)] after_def)

theorem upstream_failure_reply_witness:
  "responses (fst (handler (online_world rate_limited) (parsed_post (JObj [(''answers'', JObj [])]))))
     = [(502, JObj [(''error'', JStr ''OpenAI API error''),
                    (''status'', JNum 429),
                    (''body'', JStr ''Rate limit reached'')])]"
proof -
  let ?w = "online_world rate_limited"
  let ?body = "JObj [(''answers'', JObj [])]"
  have 1: "req_method (parsed_post ?body) = ''POST''" by (simp add: parsed_post_def)
  have 2: "readJsonBody ?w (parsed_post ?body) = Some ?body"
    by (simp add: readJsonBody_def parsed_post_def)
  have 3: "answers_of ?body = Inr (JObj [])" by (simp add: answers_of_def)
  have 6: "(\<lambda>rq. Inr rate_limited) (build_request ?w (JObj []) ''sk-test'') = Inr rate_limited"
    by simp
  have 7: "\<not> resp_ok rate_limited" by (simp add: resp_ok_def rate_limited_def)
  have 8: "resp_text rate_limited = Inr ''Rate limit reached''" by (simp add: rate_limited_def)
  have 9: "resp_status rate_limited = 429" by (simp add: rate_limited_def)
  from upstream_failure_reply [OF 1 2 3 online_key online_fetch 6 7] 8 9
  show ?thesis by simp
qed

text \<open>
  C6 as stated fails when the body of the refusal cannot be read: with status 429 and a
  \<^verbatim>\<open>resp.text()\<close> that rejects, line 125 raises inside the outer \<^verbatim>\<open>try\<close> and the catch-all
  responds 500, not 502.
\<close>

theorem unreadable_refusal_gives_500:
  "\<not> resp_ok broken_refusal
   \<and> responses (fst (handler (online_world broken_refusal)
                            (parsed_post (JObj [(''answers'', JObj [])]))))
       = [(500, JObj [(''error'', JStr ''Server error''),
                      (''message'', JStr ''TypeError: terminated'')])]"
  by (simp add: handler_def parsed_post_def readJsonBody_def answers_of_def with_answers_def
      online_key upstream_path_def try_upstream_def online_fetch broken_refusal_def
      resp_ok_def after_def)

subsection \<open>Body parsing\<close>

lemma consume_chunks: "consume w d (map Data cs @ es) = consume w (d @ concat cs) es"
  by (induction cs arbitrary: d) simp_all

text \<open>
  C8. For every request without a non-empty body parsed by the transport, whose stream
  ends after delivering a text that is empty or that \<^verbatim>\<open>JSON.parse\<close> rejects,
  \<^verbatim>\<open>readJsonBody\<close> yields the empty object (given that \<^verbatim>\<open>JSON.parse\<close> reads the text
  \<^verbatim>\<open>{}\<close> as the empty object), \<open>answers\<close> is the empty object, and the handler runs
  exactly as it does on the same request with the parsed body \<^verbatim>\<open>{answers: {}}\<close>. The
  body reader has no error outcome.
\<close>

theorem unparsable_body_is_empty_answers:
  assumes "\<not> (truthy (req_body req) \<and> object_keys_length (req_body req) \<noteq> 0)"
    and "req_stream req = map Data chunks @ End # rest"
    and "concat chunks = [] \<or> JSON_parse w (concat chunks) = None"
    and "JSON_parse w ''{}'' = Some (JObj [])"
  shows "readJsonBody w req = Some (JObj [])
         \<and> answers_of (JObj []) = Inr (JObj [])
         \<and> handler w req = handler w (req\<lparr>req_body := JObj [(''answers'', JObj [])]\<rparr>)
         \<and> (req_method req = ''POST'' \<longrightarrow>
              handler w req = after [BodyRead] (with_answers w (JObj [])))"
proof -
  have "consume w [] (req_stream req) = Some (JObj [])"
    using assms(3,4) by (auto simp: assms(2) consume_chunks)
  with assms(1) have body: "readJsonBody w req = Some (JObj [])"
    by (auto simp: readJsonBody_def)
  have answers: "answers_of (JObj []) = Inr (JObj [])"
    by (simp add: answers_of_def)
  have "handler w (req\<lparr>req_body := JObj [(''answers'', JObj [])]\<rparr>)
          = (if req_method req \<noteq> ''POST'' then handler w req
             else after [BodyRead] (with_answers w (JObj [])))"
    by (simp add: handler_def readJsonBody_def answers_of_def)
  moreover have "req_method req = ''POST'' \<Longrightarrow>
      handler w req = after [BodyRead] (with_answers w (JObj []))"
    by (simp add: handler_def body answers)
  ultimately show ?thesis using body answers by simp
qed

theorem unparsable_body_is_empty_answers_witness:
  "handler offline_world (raw_post [''not '', ''json''])
     = handler offline_world (parsed_post (JObj [(''answers'', JObj [])]))
   \<and> readJsonBody offline_world (raw_post []) = Some (JObj [])"
proof -
  have p: "JSON_parse offline_world ''{}'' = Some (JObj [])"
    by (simp add: offline_world_def example_parse_def)
  have n: "concat [''not '', ''json''] = [] \<or> JSON_parse offline_world (concat [''not '', ''json'']) = None"
    by (simp add: offline_world_def example_parse_def)
  have e: "concat ([] :: string list) = [] \<or> JSON_parse offline_world (concat []) = None"
    by simp
  have b: "\<not> (truthy (req_body (raw_post cs)) \<and> object_keys_length (req_body (raw_post cs)) \<noteq> 0)" for cs
    by (simp add: raw_post_def)
  have s: "req_stream (raw_post cs) = map Data cs @ End # []" for cs
    by (simp add: raw_post_def)
  have "raw_post [''not '', ''json'']\<lparr>req_body := JObj [(''answers'', JObj [])]\<rparr>
          = (parsed_post (JObj [(''answers'', JObj [])]))\<lparr>req_stream := map Data [''not '', ''json''] @ [End]\<rparr>"
    by (simp add: raw_post_def parsed_post_def)
  moreover have "handler offline_world ((parsed_post (JObj [(''answers'', JObj [])]))\<lparr>req_stream := map Data [''not '', ''json''] @ [End]\<rparr>)
     = handler offline_world (parsed_post (JObj [(''answers'', JObj [])]))"
    by (simp add: handler_def readJsonBody_def parsed_post_def)
  ultimately show ?thesis
    using unparsable_body_is_empty_answers [OF b s n p]
      unparsable_body_is_empty_answers [OF b s e p]
    by simp
qed

end
